theory Spec2Isabelle
  imports Complex_Main
begin

section \<open>JavaScript values\<close>

text \<open>
  The methods of \<open>StorageManager\<close> (src/StorageManager.ts) are typed in TypeScript, but
  \<open>listBuckets\<close> and \<open>searchFiles\<close> inspect their arguments at run time with a
  truthiness test and \<open>typeof\<close>. The arguments are therefore modelled as untyped
  JavaScript values. A number is kept as far as the truthiness test reads it: \<open>NaN\<close>,
  the infinities, or a finite value (both zeros are \<open>Fin 0\<close>).
\<close>

datatype jsnum = NaN | PosInfinity | NegInfinity | Fin rat

datatype jsval =
    JUndefined
  | JNull
  | JBool bool
  | JNumber jsnum
  | JBigInt int
  | JString string
  | JSymbol string
  | JObject "(string \<times> jsval) list"
  | JArray "jsval list"
  | JFunction string

text \<open>The \<open>typeof\<close> operator; \<open>typeof null\<close> is \<open>"object"\<close>.\<close>

fun typeof :: "jsval \<Rightarrow> string" where
  "typeof JUndefined = ''undefined''"
| "typeof JNull = ''object''"
| "typeof (JBool b) = ''boolean''"
| "typeof (JNumber n) = ''number''"
| "typeof (JBigInt i) = ''bigint''"
| "typeof (JString s) = ''string''"
| "typeof (JSymbol s) = ''symbol''"
| "typeof (JObject kvs) = ''object''"
| "typeof (JArray vs) = ''object''"
| "typeof (JFunction f) = ''function''"

text \<open>
  The conversion to boolean that \<open>if (v)\<close> applies: \<open>undefined\<close>, \<open>null\<close>,
  \<open>false\<close>, zero, \<open>NaN\<close>, \<open>0n\<close> and the empty string are falsy, everything else is
  truthy.
\<close>

fun truthy :: "jsval \<Rightarrow> bool" where
  "truthy JUndefined = False"
| "truthy JNull = False"
| "truthy (JBool b) = b"
| "truthy (JNumber n) = (n \<noteq> NaN \<and> n \<noteq> Fin 0)"
| "truthy (JBigInt i) = (i \<noteq> 0)"
| "truthy (JString s) = (s \<noteq> [])"
| "truthy (JSymbol s) = True"
| "truthy (JObject kvs) = True"
| "truthy (JArray vs) = True"
| "truthy (JFunction f) = True"

text \<open>
  An object in the sense of the run-time checks of the source: a truthy value whose
  \<open>typeof\<close> is \<open>"object"\<close>, that is an object literal or an array.
\<close>

definition isObject :: "jsval \<Rightarrow> bool" where
  "isObject v = (truthy v \<and> typeof v = ''object'')"

section \<open>Errors, promises and the transport\<close>

text \<open>
  \<open>new ClientError(code, message)\<close> is the error the source constructs itself.
  \<open>InvalidArgument\<close> is the error of \<open>checkRequired\<close>, which is not among the
  sources: the specification names its class only, and the model keeps the field label
  that the caller passes.
\<close>

datatype client_error =
    ClientError string string
  | InvalidArgument string

text \<open>
  The \<open>async\<close> methods return a promise. A \<open>throw\<close> in the body of an \<open>async\<close>
  method settles the returned promise as rejected; \<open>return await p\<close> resolves it with
  the value of \<open>p\<close>.
\<close>

datatype 'a promise = Resolved 'a | Rejected client_error

text \<open>The result type \<open>{ data; errors }\<close> of every \<open>async\<close> method.\<close>

record envelope =
  data :: jsval
  errors :: jsval

text \<open>
  One call of \<open>this.fetcher.post\<close>: the path and the body, \<open>None\<close> when the call
  passes no second argument.
\<close>

datatype fetcher_call = Post string "jsval option"

text \<open>
  Modelled from the spec: the class \<open>Fetcher\<close> (./utils/Fetcher) is not among the
  sources. The specification treats it as an external collaborator that performs the
  request and returns an envelope. It is a parameter of the model: any function from the
  calls made so far and the present call to an envelope. The state of the model is the
  list of calls made so far, oldest first.
\<close>

type_synonym fetcher = "fetcher_call list \<Rightarrow> fetcher_call \<Rightarrow> envelope"

definition post ::
  "fetcher \<Rightarrow> string \<Rightarrow> jsval option \<Rightarrow> fetcher_call list \<Rightarrow> envelope \<times> fetcher_call list"
where
  "post f path body calls = (f calls (Post path body), calls @ [Post path body])"

text \<open>\<open>return await p\<close> at the end of an \<open>async\<close> method.\<close>

definition returnAwait ::
  "envelope \<times> fetcher_call list \<Rightarrow> envelope promise \<times> fetcher_call list"
where
  "returnAwait r = (Resolved (fst r), snd r)"

text \<open>
  Modelled from the spec: \<open>checkRequired\<close> (./utils/helpers) is not among the sources.
  By the specification it fails with \<open>InvalidArgument\<close> when the value is empty or
  absent; absent is read as \<open>undefined\<close> or \<open>null\<close>, empty as the empty string.
  \<open>Some e\<close> is the error thrown, \<open>None\<close> a normal return.
\<close>

definition checkRequired :: "string \<Rightarrow> jsval \<Rightarrow> client_error option" where
  "checkRequired fieldName fieldValue =
     (if fieldValue = JUndefined \<or> fieldValue = JNull \<or> fieldValue = JString []
      then Some (InvalidArgument fieldName)
      else None)"

section \<open>StorageManager\<close>

text \<open>
  The class holds the fetcher its constructor receives (\<open>super(fetcher)\<close>).
\<close>

record storage_manager =
  fetcher :: fetcher

definition StorageManager :: "fetcher \<Rightarrow> storage_manager" where
  "StorageManager f = \<lparr>fetcher = f\<rparr>"

text \<open>
  Modelled from the spec: the class \<open>BucketManager\<close> (./BucketManager) is not among the
  sources. By the specification a handle is constructed from a bucket identifier and the
  transport, and constructing it performs no I/O.
\<close>

datatype bucket_manager = BucketManager jsval fetcher

text \<open>
  \<open>bucket(nameOrId)\<close> is not \<open>async\<close>: an error of \<open>checkRequired\<close> is thrown to
  the caller (\<open>Inl\<close>).
\<close>

definition bucket ::
  "storage_manager \<Rightarrow> jsval \<Rightarrow> fetcher_call list
     \<Rightarrow> (client_error + bucket_manager) \<times> fetcher_call list"
where
  "bucket this nameOrId calls =
     (case checkRequired ''bucket name or id'' nameOrId of
        Some e \<Rightarrow> (Inl e, calls)
      | None \<Rightarrow> (Inr (BucketManager nameOrId (fetcher this)), calls))"

text \<open>
  \<open>createBucket(name, isPublic = true)\<close>: the default applies when the second argument
  is \<open>undefined\<close>.
\<close>

definition createBucket ::
  "storage_manager \<Rightarrow> jsval \<Rightarrow> jsval \<Rightarrow> fetcher_call list
     \<Rightarrow> envelope promise \<times> fetcher_call list"
where
  "createBucket this name isPublicArg calls =
     (let isPublic = (if isPublicArg = JUndefined then JBool True else isPublicArg) in
      case checkRequired ''Bucket name'' name of
        Some e \<Rightarrow> (Rejected e, calls)
      | None \<Rightarrow>
          returnAwait
            (post (fetcher this) ''/_api/rest/v1/storage/create-bucket''
               (Some (JObject [(''name'', name), (''isPublic'', isPublic)])) calls))"

text \<open>
  \<open>listBuckets(expression?, options?)\<close>. The two \<open>if\<close> statements update the local
  variables \<open>(expVal, optionsVal)\<close>, both \<open>null\<close> at first; each is a function on that
  pair, \<open>Inl\<close> when it throws.
\<close>

definition listBuckets_expression ::
  "jsval \<Rightarrow> jsval \<times> jsval \<Rightarrow> client_error + jsval \<times> jsval"
where
  "listBuckets_expression expression vars =
     (if truthy expression then
        if typeof expression = ''string'' then Inr (expression, snd vars)
        else if typeof expression = ''object'' then Inr (fst vars, expression)
        else Inl (ClientError ''invalid_value''
                    ''Bucket listing expression needs to be a string'')
      else Inr vars)"

definition listBuckets_options ::
  "jsval \<Rightarrow> jsval \<times> jsval \<Rightarrow> client_error + jsval \<times> jsval"
where
  "listBuckets_options options vars =
     (if truthy options then
        if typeof options = ''object'' then Inr (fst vars, options)
        else Inl (ClientError ''invalid_value''
                    ''Bucket listing options need to be an object'')
      else Inr vars)"

definition listBuckets ::
  "storage_manager \<Rightarrow> jsval \<Rightarrow> jsval \<Rightarrow> fetcher_call list
     \<Rightarrow> envelope promise \<times> fetcher_call list"
where
  "listBuckets this expression options calls =
     (case listBuckets_expression expression (JNull, JNull) of
        Inl e \<Rightarrow> (Rejected e, calls)
      | Inr vars \<Rightarrow>
          (case listBuckets_options options vars of
             Inl e \<Rightarrow> (Rejected e, calls)
           | Inr (expVal, optionsVal) \<Rightarrow>
               returnAwait
                 (post (fetcher this) ''/_api/rest/v1/storage/list-buckets''
                    (Some (JObject [(''expression'', expVal), (''options'', optionsVal)]))
                    calls)))"

text \<open>The getter \<open>root\<close> (\<open>root\<close> alone names the n-th root of the library).\<close>

definition root_get ::
  "storage_manager \<Rightarrow> fetcher_call list \<Rightarrow> bucket_manager \<times> fetcher_call list"
where
  "root_get this calls = (BucketManager (JString ''root'') (fetcher this), calls)"

text \<open>\<open>getStats()\<close> calls \<open>post\<close> with the path alone.\<close>

definition getStats ::
  "storage_manager \<Rightarrow> fetcher_call list \<Rightarrow> envelope promise \<times> fetcher_call list"
where
  "getStats this calls =
     returnAwait (post (fetcher this) ''/_api/rest/v1/storage/stats'' None calls)"

text \<open>\<open>searchFiles(expression, options?)\<close>, with the local variable \<open>optionsVal\<close>.\<close>

definition searchFiles_options :: "jsval \<Rightarrow> jsval \<Rightarrow> client_error + jsval" where
  "searchFiles_options options optionsVal =
     (if truthy options then
        if typeof options = ''object'' then Inr options
        else Inl (ClientError ''invalid_value''
                    ''File search options need to be an object'')
      else Inr optionsVal)"

definition searchFiles ::
  "storage_manager \<Rightarrow> jsval \<Rightarrow> jsval \<Rightarrow> fetcher_call list
     \<Rightarrow> envelope promise \<times> fetcher_call list"
where
  "searchFiles this expression options calls =
     (case checkRequired ''search expression'' expression of
        Some e \<Rightarrow> (Rejected e, calls)
      | None \<Rightarrow>
          (case searchFiles_options options JNull of
             Inl e \<Rightarrow> (Rejected e, calls)
           | Inr optionsVal \<Rightarrow>
               returnAwait
                 (post (fetcher this) ''/_api/rest/v1/storage/search-files''
                    (Some (JObject [(''expression'', expression), (''options'', optionsVal)]))
                    calls)))"

section \<open>The outcome of a method that reaches the transport\<close>

text \<open>
  The outcome of an \<open>async\<close> method that makes the one call \<open>c\<close> after the calls
  \<open>calls\<close> and returns what the transport answers: the promise resolves with that
  answer, and \<open>c\<close> is the only call added.
\<close>

definition oneCall ::
  "storage_manager \<Rightarrow> fetcher_call \<Rightarrow> fetcher_call list
     \<Rightarrow> envelope promise \<times> fetcher_call list"
where
  "oneCall this c calls = (Resolved (fetcher this calls c), calls @ [c])"

section \<open>A transport for the concrete runs\<close>

text \<open>
  A transport that answers each call with an envelope holding the path, the body and the
  number of earlier calls, so that different calls get different answers.
\<close>

definition echoFetcher :: fetcher where
  "echoFetcher calls call =
     (case call of
        Post path body \<Rightarrow>
          \<lparr>data = JObject
             [(''path'', JString path),
              (''body'', (case body of None \<Rightarrow> JUndefined | Some b \<Rightarrow> b)),
              (''earlier'', JNumber (Fin (of_nat (length calls))))],
           errors = JNull\<rparr>)"

definition echoStorage :: storage_manager where
  "echoStorage = StorageManager echoFetcher"

section \<open>Auxiliary facts\<close>

lemma returnAwait_post:
  "returnAwait (post (fetcher this) path body calls) = oneCall this (Post path body) calls"
  by (simp add: returnAwait_def post_def oneCall_def)

lemma listBuckets_expression_falsy:
  "\<not> truthy expression \<Longrightarrow> listBuckets_expression expression vars = Inr vars"
  by (simp add: listBuckets_expression_def)

lemma listBuckets_expression_string:
  "e \<noteq> [] \<Longrightarrow> listBuckets_expression (JString e) vars = Inr (JString e, snd vars)"
  by (simp add: listBuckets_expression_def)

lemma listBuckets_expression_object:
  "isObject v \<Longrightarrow> listBuckets_expression v vars = Inr (fst vars, v)"
  by (simp add: listBuckets_expression_def isObject_def)

lemma listBuckets_expression_invalid:
  "truthy v \<Longrightarrow> typeof v \<noteq> ''string'' \<Longrightarrow> typeof v \<noteq> ''object'' \<Longrightarrow>
   listBuckets_expression v vars =
     Inl (ClientError ''invalid_value'' ''Bucket listing expression needs to be a string'')"
  by (simp add: listBuckets_expression_def)

lemma listBuckets_options_falsy:
  "\<not> truthy options \<Longrightarrow> listBuckets_options options vars = Inr vars"
  by (simp add: listBuckets_options_def)

lemma listBuckets_options_object:
  "isObject v \<Longrightarrow> listBuckets_options v vars = Inr (fst vars, v)"
  by (simp add: listBuckets_options_def isObject_def)

lemma listBuckets_options_invalid:
  "truthy v \<Longrightarrow> typeof v \<noteq> ''object'' \<Longrightarrow>
   listBuckets_options v vars =
     Inl (ClientError ''invalid_value'' ''Bucket listing options need to be an object'')"
  by (simp add: listBuckets_options_def)

lemma checkRequired_rejects:
  "v = JUndefined \<or> v = JNull \<or> v = JString [] \<Longrightarrow>
   checkRequired fieldName v = Some (InvalidArgument fieldName)"
  by (simp add: checkRequired_def)

lemma checkRequired_accepts:
  "v \<noteq> JUndefined \<Longrightarrow> v \<noteq> JNull \<Longrightarrow> v \<noteq> JString [] \<Longrightarrow>
   checkRequired fieldName v = None"
  by (simp add: checkRequired_def)

lemma echo_fetcher: "fetcher echoStorage = echoFetcher"
  by (simp add: echoStorage_def StorageManager_def)

text \<open>
  Each \<open>async\<close> method either rejects without a call or makes one call to its own path
  and resolves with the transport's answer. For \<open>createBucket\<close> and \<open>searchFiles\<close>
  this holds whatever values \<open>checkRequired\<close> rejects: the proofs split on its result
  only.
\<close>

lemma createBucket_outcome:
  "(\<exists>e. createBucket this name isPublic calls = (Rejected e, calls))
   \<or> (\<exists>body. createBucket this name isPublic calls =
         oneCall this (Post ''/_api/rest/v1/storage/create-bucket'' (Some body)) calls)"
  by (cases "checkRequired ''Bucket name'' name")
    (auto simp: createBucket_def returnAwait_post)

lemma listBuckets_outcome:
  "(\<exists>e. listBuckets this expression options calls = (Rejected e, calls))
   \<or> (\<exists>body. listBuckets this expression options calls =
         oneCall this (Post ''/_api/rest/v1/storage/list-buckets'' (Some body)) calls)"
proof (cases "listBuckets_expression expression (JNull, JNull)")
  case (Inl e)
  then show ?thesis by (simp add: listBuckets_def)
next
  case (Inr vars)
  then show ?thesis
    by (cases "listBuckets_options options vars")
      (auto simp: listBuckets_def returnAwait_post split: prod.splits)
qed

lemma getStats_outcome:
  "getStats this calls = oneCall this (Post ''/_api/rest/v1/storage/stats'' None) calls"
  by (simp add: getStats_def returnAwait_post)

lemma searchFiles_outcome:
  "(\<exists>e. searchFiles this expression options calls = (Rejected e, calls))
   \<or> (\<exists>body. searchFiles this expression options calls =
         oneCall this (Post ''/_api/rest/v1/storage/search-files'' (Some body)) calls)"
proof (cases "checkRequired ''search expression'' expression")
  case (Some e)
  then show ?thesis by (simp add: searchFiles_def)
next
  case None
  then show ?thesis
    by (cases "searchFiles_options options JNull")
      (auto simp: searchFiles_def returnAwait_post)
qed

section \<open>listBuckets: the request body\<close>

text \<open>
  C1, as stated, fails at two calls. The empty string is a string, but it is falsy, so
  the guard \<open>if (expression)\<close> skips it and \<open>expression: null\<close> is sent. And when
  the first argument is an object and a second object is given as well, the second
  \<open>if\<close> overwrites \<open>optionsVal\<close>: the options sent are the second argument, not the
  first.
\<close>

theorem listBuckets_body_counterexample:
  "snd (listBuckets echoStorage (JString []) JUndefined []) =
     [Post ''/_api/rest/v1/storage/list-buckets''
        (Some (JObject [(''expression'', JNull), (''options'', JNull)]))]
   \<and> snd (listBuckets echoStorage (JString []) JUndefined []) \<noteq>
     [Post ''/_api/rest/v1/storage/list-buckets''
        (Some (JObject [(''expression'', JString []), (''options'', JNull)]))]
   \<and> snd (listBuckets echoStorage (JObject [(''limit'', JNumber (Fin 10))])
         (JObject [(''page'', JNumber (Fin 2))]) []) =
     [Post ''/_api/rest/v1/storage/list-buckets''
        (Some (JObject [(''expression'', JNull),
           (''options'', JObject [(''page'', JNumber (Fin 2))])]))]
   \<and> snd (listBuckets echoStorage (JObject [(''limit'', JNumber (Fin 10))])
         (JObject [(''page'', JNumber (Fin 2))]) []) \<noteq>
     [Post ''/_api/rest/v1/storage/list-buckets''
        (Some (JObject [(''expression'', JNull),
           (''options'', JObject [(''limit'', JNumber (Fin 10))])]))]"
  by (simp add: listBuckets_def listBuckets_expression_def listBuckets_options_def
      returnAwait_def post_def)

text \<open>
  C1 (amended). For every call of \<open>listBuckets\<close> in which no second argument is given:
  when the first argument is a non-empty string \<open>e\<close>, the one call made is to
  \<open>/_api/rest/v1/storage/list-buckets\<close> with body \<open>{expression: e, options: null}\<close>;
  when the first argument is an object \<open>opts\<close>, the body is
  \<open>{expression: null, options: opts}\<close>; when no argument is given at all, the body is
  \<open>{expression: null, options: null}\<close>. In each case the promise resolves with the
  transport's answer.
\<close>

theorem listBuckets_body:
  "(e \<noteq> [] \<longrightarrow>
      listBuckets this (JString e) JUndefined calls =
        oneCall this
          (Post ''/_api/rest/v1/storage/list-buckets''
             (Some (JObject [(''expression'', JString e), (''options'', JNull)]))) calls)
   \<and> (isObject opts \<longrightarrow>
      listBuckets this opts JUndefined calls =
        oneCall this
          (Post ''/_api/rest/v1/storage/list-buckets''
             (Some (JObject [(''expression'', JNull), (''options'', opts)]))) calls)
   \<and> listBuckets this JUndefined JUndefined calls =
        oneCall this
          (Post ''/_api/rest/v1/storage/list-buckets''
             (Some (JObject [(''expression'', JNull), (''options'', JNull)]))) calls"
proof (intro conjI impI)
  assume "e \<noteq> []"
  then show "listBuckets this (JString e) JUndefined calls =
      oneCall this
        (Post ''/_api/rest/v1/storage/list-buckets''
           (Some (JObject [(''expression'', JString e), (''options'', JNull)]))) calls"
    by (simp add: listBuckets_def listBuckets_expression_string listBuckets_options_falsy
        returnAwait_post)
next
  assume "isObject opts"
  then show "listBuckets this opts JUndefined calls =
      oneCall this
        (Post ''/_api/rest/v1/storage/list-buckets''
           (Some (JObject [(''expression'', JNull), (''options'', opts)]))) calls"
    by (simp add: listBuckets_def listBuckets_expression_object listBuckets_options_falsy
        returnAwait_post)
next
  show "listBuckets this JUndefined JUndefined calls =
      oneCall this
        (Post ''/_api/rest/v1/storage/list-buckets''
           (Some (JObject [(''expression'', JNull), (''options'', JNull)]))) calls"
    by (simp add: listBuckets_def listBuckets_expression_falsy listBuckets_options_falsy
        returnAwait_post)
qed

theorem listBuckets_body_witness:
  "listBuckets echoStorage (JString ''status=1'') JUndefined [] =
     (Resolved
        \<lparr>data = JObject
           [(''path'', JString ''/_api/rest/v1/storage/list-buckets''),
            (''body'', JObject [(''expression'', JString ''status=1''), (''options'', JNull)]),
            (''earlier'', JNumber (Fin 0))],
         errors = JNull\<rparr>,
      [Post ''/_api/rest/v1/storage/list-buckets''
         (Some (JObject [(''expression'', JString ''status=1''), (''options'', JNull)]))])
   \<and> listBuckets echoStorage (JObject [(''limit'', JNumber (Fin 10))]) JUndefined [] =
     (Resolved
        \<lparr>data = JObject
           [(''path'', JString ''/_api/rest/v1/storage/list-buckets''),
            (''body'', JObject [(''expression'', JNull),
               (''options'', JObject [(''limit'', JNumber (Fin 10))])]),
            (''earlier'', JNumber (Fin 0))],
         errors = JNull\<rparr>,
      [Post ''/_api/rest/v1/storage/list-buckets''
         (Some (JObject [(''expression'', JNull),
            (''options'', JObject [(''limit'', JNumber (Fin 10))])]))])"
  using listBuckets_body [where e = "''status=1''" and this = echoStorage
      and opts = "JObject [(''limit'', JNumber (Fin 10))]" and calls = "[]"]
  by (simp add: oneCall_def echo_fetcher echoFetcher_def isObject_def)

section \<open>listBuckets: the run-time type checks\<close>

text \<open>
  C2, as stated, fails at the number 0: it is provided and is neither a string nor an
  object, yet the guard \<open>if (expression)\<close> skips the type check of a falsy value; no
  error is raised and the call is made.
\<close>

theorem listBuckets_zero_counterexample:
  "listBuckets echoStorage (JNumber (Fin 0)) JUndefined [] =
     (Resolved
        \<lparr>data = JObject
           [(''path'', JString ''/_api/rest/v1/storage/list-buckets''),
            (''body'', JObject [(''expression'', JNull), (''options'', JNull)]),
            (''earlier'', JNumber (Fin 0))],
         errors = JNull\<rparr>,
      [Post ''/_api/rest/v1/storage/list-buckets''
         (Some (JObject [(''expression'', JNull), (''options'', JNull)]))])"
  by (simp add: listBuckets_def listBuckets_expression_def listBuckets_options_def
      returnAwait_def post_def echoStorage_def StorageManager_def echoFetcher_def)

text \<open>
  C2 (amended). For every truthy first argument of \<open>listBuckets\<close> that is neither a
  string nor an object (for example the number 42), the error
  \<open>ClientError('invalid_value', ...)\<close> is raised and no call is made; likewise, for every
  truthy second argument that is not an object, an \<open>invalid_value\<close> error is raised and
  no call is made (the error of the first argument when that one is invalid too). The
  methods being \<open>async\<close>, the error rejects the returned promise.
\<close>

theorem listBuckets_invalid_value:
  "(truthy expression \<and> typeof expression \<noteq> ''string'' \<and> typeof expression \<noteq> ''object'' \<longrightarrow>
      listBuckets this expression options calls =
        (Rejected (ClientError ''invalid_value''
           ''Bucket listing expression needs to be a string''), calls))
   \<and> (truthy options \<and> typeof options \<noteq> ''object'' \<longrightarrow>
      listBuckets this expression options calls =
        (Rejected (ClientError ''invalid_value''
           (if truthy expression \<and> typeof expression \<noteq> ''string''
               \<and> typeof expression \<noteq> ''object''
            then ''Bucket listing expression needs to be a string''
            else ''Bucket listing options need to be an object'')), calls))"
proof (intro conjI impI)
  assume "truthy expression \<and> typeof expression \<noteq> ''string'' \<and> typeof expression \<noteq> ''object''"
  then show "listBuckets this expression options calls =
      (Rejected (ClientError ''invalid_value''
         ''Bucket listing expression needs to be a string''), calls)"
    by (simp add: listBuckets_def listBuckets_expression_invalid)
next
  assume bad: "truthy options \<and> typeof options \<noteq> ''object''"
  have opt: "listBuckets_options options vars =
      Inl (ClientError ''invalid_value'' ''Bucket listing options need to be an object'')"
    for vars
    using bad by (simp add: listBuckets_options_invalid)
  show "listBuckets this expression options calls =
      (Rejected (ClientError ''invalid_value''
         (if truthy expression \<and> typeof expression \<noteq> ''string''
             \<and> typeof expression \<noteq> ''object''
          then ''Bucket listing expression needs to be a string''
          else ''Bucket listing options need to be an object'')), calls)"
    by (simp add: listBuckets_def listBuckets_expression_def opt)
qed

theorem listBuckets_invalid_value_witness:
  "listBuckets echoStorage (JNumber (Fin 42)) JUndefined [] =
     (Rejected (ClientError ''invalid_value''
        ''Bucket listing expression needs to be a string''), [])
   \<and> listBuckets echoStorage (JString ''a'') (JNumber (Fin 42)) [] =
     (Rejected (ClientError ''invalid_value''
        ''Bucket listing options need to be an object''), [])"
  using listBuckets_invalid_value [where expression = "JNumber (Fin 42)"
      and options = JUndefined and this = echoStorage and calls = "[]"]
    listBuckets_invalid_value [where expression = "JString ''a''"
      and options = "JNumber (Fin 42)" and this = echoStorage and calls = "[]"]
  by simp

text \<open>
  C9. For every falsy first argument of \<open>listBuckets\<close> (0, \<open>false\<close>, \<open>NaN\<close>, the empty
  string, \<open>null\<close>, \<open>undefined\<close>) the type check is skipped, although the value may be
  provided and be neither a string nor an object: the first \<open>if\<close> leaves the local
  variables as they are, and the call behaves as if the argument were \<open>undefined\<close>.
  A falsy second argument is skipped likewise, and with both arguments falsy the call is
  made with body \<open>{expression: null, options: null}\<close> and no error is raised.
\<close>

theorem listBuckets_falsy_skips_check:
  "(expression \<in> {JNumber (Fin 0), JBool False, JNumber NaN, JString [], JNull, JUndefined}
      \<longrightarrow> \<not> truthy expression)
   \<and> (\<not> truthy expression \<longrightarrow>
        listBuckets_expression expression vars = Inr vars
        \<and> listBuckets this expression options calls =
            listBuckets this JUndefined options calls)
   \<and> (\<not> truthy options \<longrightarrow> listBuckets_options options vars = Inr vars)
   \<and> (\<not> truthy expression \<and> \<not> truthy options \<longrightarrow>
        listBuckets this expression options calls =
          oneCall this
            (Post ''/_api/rest/v1/storage/list-buckets''
               (Some (JObject [(''expression'', JNull), (''options'', JNull)]))) calls)"
proof (intro conjI impI)
  assume "expression \<in> {JNumber (Fin 0), JBool False, JNumber NaN, JString [], JNull, JUndefined}"
  then show "\<not> truthy expression"
    by auto
next
  assume "\<not> truthy expression"
  then show "listBuckets_expression expression vars = Inr vars"
    by (rule listBuckets_expression_falsy)
next
  assume "\<not> truthy expression"
  then show "listBuckets this expression options calls =
      listBuckets this JUndefined options calls"
    by (simp add: listBuckets_def listBuckets_expression_falsy)
next
  assume "\<not> truthy options"
  then show "listBuckets_options options vars = Inr vars"
    by (rule listBuckets_options_falsy)
next
  assume "\<not> truthy expression \<and> \<not> truthy options"
  then show "listBuckets this expression options calls =
      oneCall this
        (Post ''/_api/rest/v1/storage/list-buckets''
           (Some (JObject [(''expression'', JNull), (''options'', JNull)]))) calls"
    by (simp add: listBuckets_def listBuckets_expression_falsy listBuckets_options_falsy
        returnAwait_post)
qed

theorem listBuckets_falsy_skips_check_witness:
  "\<not> truthy (JNumber NaN)
   \<and> listBuckets_expression (JNumber NaN) (JNull, JNull) = Inr (JNull, JNull)
   \<and> listBuckets echoStorage (JNumber NaN) (JBool False) [] =
       listBuckets echoStorage JUndefined (JBool False) []
   \<and> listBuckets_options (JBool False) (JNull, JNull) = Inr (JNull, JNull)
   \<and> listBuckets echoStorage (JNumber NaN) (JBool False) [] =
       (Resolved
          \<lparr>data = JObject
             [(''path'', JString ''/_api/rest/v1/storage/list-buckets''),
              (''body'', JObject [(''expression'', JNull), (''options'', JNull)]),
              (''earlier'', JNumber (Fin 0))],
           errors = JNull\<rparr>,
        [Post ''/_api/rest/v1/storage/list-buckets''
           (Some (JObject [(''expression'', JNull), (''options'', JNull)]))])"
  using listBuckets_falsy_skips_check [where expression = "JNumber NaN"
      and options = "JBool False" and this = echoStorage and calls = "[]"
      and vars = "(JNull, JNull)"]
    listBuckets_falsy_skips_check [where expression = JUndefined
      and options = "JBool False" and this = echoStorage and calls = "[]"
      and vars = "(JNull, JNull)"]
  by (simp add: oneCall_def echo_fetcher echoFetcher_def)

text \<open>
  C10. For every call \<open>listBuckets(o1, o2)\<close> in which both arguments are objects, the
  first \<open>if\<close> assigns \<open>o1\<close> to \<open>optionsVal\<close>, the second overwrites it with \<open>o2\<close>,
  and the call is made with body \<open>{expression: null, options: o2}\<close>: \<open>o1\<close> is dropped
  and no error is raised.
\<close>

theorem listBuckets_two_objects:
  "isObject o1 \<and> isObject o2 \<longrightarrow>
     listBuckets_expression o1 (JNull, JNull) = Inr (JNull, o1)
     \<and> listBuckets_options o2 (JNull, o1) = Inr (JNull, o2)
     \<and> listBuckets this o1 o2 calls =
         oneCall this
           (Post ''/_api/rest/v1/storage/list-buckets''
              (Some (JObject [(''expression'', JNull), (''options'', o2)]))) calls"
  by (simp add: listBuckets_def listBuckets_expression_object listBuckets_options_object
      returnAwait_post)

theorem listBuckets_two_objects_witness:
  "listBuckets_expression (JObject [(''limit'', JNumber (Fin 10))]) (JNull, JNull) =
     Inr (JNull, JObject [(''limit'', JNumber (Fin 10))])
   \<and> listBuckets_options (JObject [(''page'', JNumber (Fin 2))])
       (JNull, JObject [(''limit'', JNumber (Fin 10))]) =
     Inr (JNull, JObject [(''page'', JNumber (Fin 2))])
   \<and> listBuckets echoStorage (JObject [(''limit'', JNumber (Fin 10))])
       (JObject [(''page'', JNumber (Fin 2))]) [] =
     (Resolved
        \<lparr>data = JObject
           [(''path'', JString ''/_api/rest/v1/storage/list-buckets''),
            (''body'', JObject [(''expression'', JNull),
               (''options'', JObject [(''page'', JNumber (Fin 2))])]),
            (''earlier'', JNumber (Fin 0))],
         errors = JNull\<rparr>,
      [Post ''/_api/rest/v1/storage/list-buckets''
         (Some (JObject [(''expression'', JNull),
            (''options'', JObject [(''page'', JNumber (Fin 2))])]))])"
  using listBuckets_two_objects [where ?o1.0 = "JObject [(''limit'', JNumber (Fin 10))]"
      and ?o2.0 = "JObject [(''page'', JNumber (Fin 2))]" and this = echoStorage
      and calls = "[]"]
  by (simp add: oneCall_def echo_fetcher echoFetcher_def isObject_def)

section \<open>searchFiles\<close>

text \<open>
  C3, as stated, fails at the options value \<open>false\<close>: it is present and is not an
  object, yet the guard \<open>if (options)\<close> skips the type check of a falsy value; no error
  is raised and the call is made with \<open>options: null\<close>.
\<close>

theorem searchFiles_falsy_options_counterexample:
  "searchFiles echoStorage (JString ''size > 0'') (JBool False) [] =
     (Resolved
        \<lparr>data = JObject
           [(''path'', JString ''/_api/rest/v1/storage/search-files''),
            (''body'', JObject [(''expression'', JString ''size > 0''), (''options'', JNull)]),
            (''earlier'', JNumber (Fin 0))],
         errors = JNull\<rparr>,
      [Post ''/_api/rest/v1/storage/search-files''
         (Some (JObject [(''expression'', JString ''size > 0''), (''options'', JNull)]))])"
  by (simp add: searchFiles_def searchFiles_options_def checkRequired_def
      returnAwait_def post_def echoStorage_def StorageManager_def echoFetcher_def)

text \<open>
  C3 (amended). For every call of \<open>searchFiles\<close> whose expression is absent (or empty),
  an \<open>InvalidArgument\<close> error is raised before any call is made. When the expression is
  present and not empty: if the options are truthy and not an object, an
  \<open>invalid_value\<close> error is raised and no call is made; otherwise the body
  \<open>{expression, options}\<close> is posted to \<open>/_api/rest/v1/storage/search-files\<close>, with
  the options themselves when they are an object and \<open>null\<close> when they are falsy (absent
  included). The method being \<open>async\<close>, an error rejects the returned promise.
\<close>

theorem searchFiles_cases:
  "(expression = JUndefined \<or> expression = JNull \<or> expression = JString [] \<longrightarrow>
      searchFiles this expression options calls =
        (Rejected (InvalidArgument ''search expression''), calls))
   \<and> (expression \<noteq> JUndefined \<and> expression \<noteq> JNull \<and> expression \<noteq> JString [] \<longrightarrow>
      (truthy options \<and> typeof options \<noteq> ''object'' \<longrightarrow>
         searchFiles this expression options calls =
           (Rejected (ClientError ''invalid_value''
              ''File search options need to be an object''), calls))
      \<and> (isObject options \<longrightarrow>
         searchFiles this expression options calls =
           oneCall this
             (Post ''/_api/rest/v1/storage/search-files''
                (Some (JObject [(''expression'', expression), (''options'', options)])))
             calls)
      \<and> (\<not> truthy options \<longrightarrow>
         searchFiles this expression options calls =
           oneCall this
             (Post ''/_api/rest/v1/storage/search-files''
                (Some (JObject [(''expression'', expression), (''options'', JNull)])))
             calls))"
proof (intro conjI impI)
  assume "expression = JUndefined \<or> expression = JNull \<or> expression = JString []"
  then show "searchFiles this expression options calls =
      (Rejected (InvalidArgument ''search expression''), calls)"
    by (simp add: searchFiles_def checkRequired_rejects)
next
  assume present: "expression \<noteq> JUndefined \<and> expression \<noteq> JNull \<and> expression \<noteq> JString []"
  then have ok: "checkRequired ''search expression'' expression = None"
    by (simp add: checkRequired_accepts)
  {
    assume "truthy options \<and> typeof options \<noteq> ''object''"
    then show "searchFiles this expression options calls =
        (Rejected (ClientError ''invalid_value''
           ''File search options need to be an object''), calls)"
      by (simp add: searchFiles_def ok searchFiles_options_def)
  next
    assume "isObject options"
    then show "searchFiles this expression options calls =
        oneCall this
          (Post ''/_api/rest/v1/storage/search-files''
             (Some (JObject [(''expression'', expression), (''options'', options)])))
          calls"
      by (simp add: searchFiles_def ok searchFiles_options_def isObject_def returnAwait_post)
  next
    assume "\<not> truthy options"
    then show "searchFiles this expression options calls =
        oneCall this
          (Post ''/_api/rest/v1/storage/search-files''
             (Some (JObject [(''expression'', expression), (''options'', JNull)])))
          calls"
      by (simp add: searchFiles_def ok searchFiles_options_def returnAwait_post)
  }
qed

theorem searchFiles_cases_witness:
  "searchFiles echoStorage JUndefined JUndefined [] =
     (Rejected (InvalidArgument ''search expression''), [])
   \<and> searchFiles echoStorage (JString ''size > 0'') (JString ''asc'') [] =
     (Rejected (ClientError ''invalid_value''
        ''File search options need to be an object''), [])
   \<and> searchFiles echoStorage (JString ''size > 0'') (JObject [(''limit'', JNumber (Fin 5))]) [] =
     (Resolved
        \<lparr>data = JObject
           [(''path'', JString ''/_api/rest/v1/storage/search-files''),
            (''body'', JObject [(''expression'', JString ''size > 0''),
               (''options'', JObject [(''limit'', JNumber (Fin 5))])]),
            (''earlier'', JNumber (Fin 0))],
         errors = JNull\<rparr>,
      [Post ''/_api/rest/v1/storage/search-files''
         (Some (JObject [(''expression'', JString ''size > 0''),
            (''options'', JObject [(''limit'', JNumber (Fin 5))])]))])
   \<and> searchFiles echoStorage (JString ''size > 0'') JUndefined [] =
     (Resolved
        \<lparr>data = JObject
           [(''path'', JString ''/_api/rest/v1/storage/search-files''),
            (''body'', JObject [(''expression'', JString ''size > 0''), (''options'', JNull)]),
            (''earlier'', JNumber (Fin 0))],
         errors = JNull\<rparr>,
      [Post ''/_api/rest/v1/storage/search-files''
         (Some (JObject [(''expression'', JString ''size > 0''), (''options'', JNull)]))])"
  using searchFiles_cases [where expression = JUndefined and options = JUndefined
      and this = echoStorage and calls = "[]"]
    searchFiles_cases [where expression = "JString ''size > 0''" and options = "JString ''asc''"
      and this = echoStorage and calls = "[]"]
    searchFiles_cases [where expression = "JString ''size > 0''"
      and options = "JObject [(''limit'', JNumber (Fin 5))]"
      and this = echoStorage and calls = "[]"]
    searchFiles_cases [where expression = "JString ''size > 0''" and options = JUndefined
      and this = echoStorage and calls = "[]"]
  by (simp add: oneCall_def echo_fetcher echoFetcher_def isObject_def)

section \<open>createBucket\<close>

text \<open>
  C4. For every call of \<open>createBucket\<close> with an empty or absent name, an
  \<open>InvalidArgument\<close> error is raised and no call is made. For every call with any other
  name, exactly one call is made, to \<open>/_api/rest/v1/storage/create-bucket\<close> with body
  \<open>{name, isPublic}\<close>, where \<open>isPublic\<close> is \<open>true\<close> when the second argument is
  omitted; \<open>createBucket("logs", false)\<close> sends \<open>{name: "logs", isPublic: false}\<close>.
\<close>

theorem createBucket_cases:
  "(name = JUndefined \<or> name = JNull \<or> name = JString [] \<longrightarrow>
      createBucket this name isPublic calls =
        (Rejected (InvalidArgument ''Bucket name''), calls))
   \<and> (name \<noteq> JUndefined \<and> name \<noteq> JNull \<and> name \<noteq> JString [] \<longrightarrow>
      createBucket this name isPublic calls =
        oneCall this
          (Post ''/_api/rest/v1/storage/create-bucket''
             (Some (JObject [(''name'', name),
                (''isPublic'', if isPublic = JUndefined then JBool True else isPublic)])))
          calls)
   \<and> createBucket this (JString ''logs'') (JBool False) calls =
        oneCall this
          (Post ''/_api/rest/v1/storage/create-bucket''
             (Some (JObject [(''name'', JString ''logs''), (''isPublic'', JBool False)])))
          calls"
proof (intro conjI impI)
  assume "name = JUndefined \<or> name = JNull \<or> name = JString []"
  then show "createBucket this name isPublic calls =
      (Rejected (InvalidArgument ''Bucket name''), calls)"
    by (simp add: createBucket_def checkRequired_rejects)
next
  assume "name \<noteq> JUndefined \<and> name \<noteq> JNull \<and> name \<noteq> JString []"
  then show "createBucket this name isPublic calls =
      oneCall this
        (Post ''/_api/rest/v1/storage/create-bucket''
           (Some (JObject [(''name'', name),
              (''isPublic'', if isPublic = JUndefined then JBool True else isPublic)])))
        calls"
    by (simp add: createBucket_def checkRequired_accepts returnAwait_post)
next
  show "createBucket this (JString ''logs'') (JBool False) calls =
      oneCall this
        (Post ''/_api/rest/v1/storage/create-bucket''
           (Some (JObject [(''name'', JString ''logs''), (''isPublic'', JBool False)])))
        calls"
    by (simp add: createBucket_def checkRequired_accepts returnAwait_post)
qed

theorem createBucket_cases_witness:
  "createBucket echoStorage (JString []) JUndefined [] =
     (Rejected (InvalidArgument ''Bucket name''), [])
   \<and> createBucket echoStorage (JString ''logs'') JUndefined [] =
     (Resolved
        \<lparr>data = JObject
           [(''path'', JString ''/_api/rest/v1/storage/create-bucket''),
            (''body'', JObject [(''name'', JString ''logs''), (''isPublic'', JBool True)]),
            (''earlier'', JNumber (Fin 0))],
         errors = JNull\<rparr>,
      [Post ''/_api/rest/v1/storage/create-bucket''
         (Some (JObject [(''name'', JString ''logs''), (''isPublic'', JBool True)]))])
   \<and> createBucket echoStorage (JString ''logs'') (JBool False) [] =
     (Resolved
        \<lparr>data = JObject
           [(''path'', JString ''/_api/rest/v1/storage/create-bucket''),
            (''body'', JObject [(''name'', JString ''logs''), (''isPublic'', JBool False)]),
            (''earlier'', JNumber (Fin 0))],
         errors = JNull\<rparr>,
      [Post ''/_api/rest/v1/storage/create-bucket''
         (Some (JObject [(''name'', JString ''logs''), (''isPublic'', JBool False)]))])"
  using createBucket_cases [where name = "JString []" and isPublic = JUndefined
      and this = echoStorage and calls = "[]"]
    createBucket_cases [where name = "JString ''logs''" and isPublic = JUndefined
      and this = echoStorage and calls = "[]"]
  by (simp add: oneCall_def echo_fetcher echoFetcher_def)

section \<open>bucket and root\<close>

text \<open>
  C7. For every empty or absent \<open>nameOrId\<close>, \<open>bucket(nameOrId)\<close> throws an
  \<open>InvalidArgument\<close> error and makes no call; for every other \<open>nameOrId\<close> it returns
  a handle constructed from exactly that identifier and the manager's fetcher, and makes
  no call. \<open>root\<close> returns a handle constructed from the literal \<open>"root"\<close> whatever the
  calls made before, checks nothing and makes no call.
\<close>

theorem bucket_and_root:
  "(nameOrId = JUndefined \<or> nameOrId = JNull \<or> nameOrId = JString [] \<longrightarrow>
      bucket this nameOrId calls = (Inl (InvalidArgument ''bucket name or id''), calls))
   \<and> (nameOrId \<noteq> JUndefined \<and> nameOrId \<noteq> JNull \<and> nameOrId \<noteq> JString [] \<longrightarrow>
      bucket this nameOrId calls = (Inr (BucketManager nameOrId (fetcher this)), calls))
   \<and> root_get this calls = (BucketManager (JString ''root'') (fetcher this), calls)"
  by (simp add: bucket_def root_get_def checkRequired_def)

theorem bucket_and_root_witness:
  "bucket echoStorage JUndefined [Post ''/_api/rest/v1/storage/stats'' None] =
     (Inl (InvalidArgument ''bucket name or id''), [Post ''/_api/rest/v1/storage/stats'' None])
   \<and> bucket echoStorage (JString ''images'') [Post ''/_api/rest/v1/storage/stats'' None] =
     (Inr (BucketManager (JString ''images'') echoFetcher),
      [Post ''/_api/rest/v1/storage/stats'' None])
   \<and> root_get echoStorage [Post ''/_api/rest/v1/storage/stats'' None] =
     (BucketManager (JString ''root'') echoFetcher, [Post ''/_api/rest/v1/storage/stats'' None])"
  using bucket_and_root [where nameOrId = JUndefined and this = echoStorage
      and calls = "[Post ''/_api/rest/v1/storage/stats'' None]"]
    bucket_and_root [where nameOrId = "JString ''images''" and this = echoStorage
      and calls = "[Post ''/_api/rest/v1/storage/stats'' None]"]
  by (simp add: echo_fetcher)

section \<open>All four requests\<close>

text \<open>
  C5. Every envelope the transport returns is returned unchanged by each of
  \<open>createBucket\<close>, \<open>listBuckets\<close>, \<open>getStats\<close> and \<open>searchFiles\<close>: whenever the
  promise of a method resolves with an envelope, the method has made one call, to its own
  path, and the envelope is the very value the transport returned for that call.
\<close>

theorem facade_returns_envelope_unchanged:
  "(createBucket this name isPublic calls = (Resolved env, calls') \<longrightarrow>
      (\<exists>body. calls' = calls @ [Post ''/_api/rest/v1/storage/create-bucket'' body]
         \<and> env = fetcher this calls (Post ''/_api/rest/v1/storage/create-bucket'' body)))
   \<and> (listBuckets this expression options calls = (Resolved env, calls') \<longrightarrow>
      (\<exists>body. calls' = calls @ [Post ''/_api/rest/v1/storage/list-buckets'' body]
         \<and> env = fetcher this calls (Post ''/_api/rest/v1/storage/list-buckets'' body)))
   \<and> (getStats this calls = (Resolved env, calls') \<longrightarrow>
      (\<exists>body. calls' = calls @ [Post ''/_api/rest/v1/storage/stats'' body]
         \<and> env = fetcher this calls (Post ''/_api/rest/v1/storage/stats'' body)))
   \<and> (searchFiles this expression options calls = (Resolved env, calls') \<longrightarrow>
      (\<exists>body. calls' = calls @ [Post ''/_api/rest/v1/storage/search-files'' body]
         \<and> env = fetcher this calls (Post ''/_api/rest/v1/storage/search-files'' body)))"
proof (intro conjI impI)
  assume "createBucket this name isPublic calls = (Resolved env, calls')"
  with createBucket_outcome [of this name isPublic calls]
  show "\<exists>body. calls' = calls @ [Post ''/_api/rest/v1/storage/create-bucket'' body]
      \<and> env = fetcher this calls (Post ''/_api/rest/v1/storage/create-bucket'' body)"
    by (auto simp: oneCall_def)
next
  assume "listBuckets this expression options calls = (Resolved env, calls')"
  with listBuckets_outcome [of this expression options calls]
  show "\<exists>body. calls' = calls @ [Post ''/_api/rest/v1/storage/list-buckets'' body]
      \<and> env = fetcher this calls (Post ''/_api/rest/v1/storage/list-buckets'' body)"
    by (auto simp: oneCall_def)
next
  assume "getStats this calls = (Resolved env, calls')"
  with getStats_outcome [of this calls]
  show "\<exists>body. calls' = calls @ [Post ''/_api/rest/v1/storage/stats'' body]
      \<and> env = fetcher this calls (Post ''/_api/rest/v1/storage/stats'' body)"
    by (auto simp: oneCall_def)
next
  assume "searchFiles this expression options calls = (Resolved env, calls')"
  with searchFiles_outcome [of this expression options calls]
  show "\<exists>body. calls' = calls @ [Post ''/_api/rest/v1/storage/search-files'' body]
      \<and> env = fetcher this calls (Post ''/_api/rest/v1/storage/search-files'' body)"
    by (auto simp: oneCall_def)
qed

theorem facade_returns_envelope_unchanged_witness:
  "createBucket echoStorage (JString ''logs'') JUndefined [] =
     (Resolved
        (echoFetcher []
           (Post ''/_api/rest/v1/storage/create-bucket''
              (Some (JObject [(''name'', JString ''logs''), (''isPublic'', JBool True)])))),
      [Post ''/_api/rest/v1/storage/create-bucket''
         (Some (JObject [(''name'', JString ''logs''), (''isPublic'', JBool True)]))])
   \<and> listBuckets echoStorage (JString ''a'') JUndefined [] =
     (Resolved
        (echoFetcher []
           (Post ''/_api/rest/v1/storage/list-buckets''
              (Some (JObject [(''expression'', JString ''a''), (''options'', JNull)])))),
      [Post ''/_api/rest/v1/storage/list-buckets''
         (Some (JObject [(''expression'', JString ''a''), (''options'', JNull)]))])
   \<and> getStats echoStorage [] =
     (Resolved (echoFetcher [] (Post ''/_api/rest/v1/storage/stats'' None)),
      [Post ''/_api/rest/v1/storage/stats'' None])
   \<and> searchFiles echoStorage (JString ''a'') JUndefined [] =
     (Resolved
        (echoFetcher []
           (Post ''/_api/rest/v1/storage/search-files''
              (Some (JObject [(''expression'', JString ''a''), (''options'', JNull)])))),
      [Post ''/_api/rest/v1/storage/search-files''
         (Some (JObject [(''expression'', JString ''a''), (''options'', JNull)]))])
   \<and> echoFetcher [] (Post ''/_api/rest/v1/storage/stats'' None) =
     \<lparr>data = JObject
        [(''path'', JString ''/_api/rest/v1/storage/stats''),
         (''body'', JUndefined),
         (''earlier'', JNumber (Fin 0))],
      errors = JNull\<rparr>"
  using facade_returns_envelope_unchanged [where this = echoStorage and calls = "[]"
      and name = "JString ''logs''" and isPublic = JUndefined
      and env = "echoFetcher []
           (Post ''/_api/rest/v1/storage/create-bucket''
              (Some (JObject [(''name'', JString ''logs''), (''isPublic'', JBool True)])))"
      and calls' = "[Post ''/_api/rest/v1/storage/create-bucket''
         (Some (JObject [(''name'', JString ''logs''), (''isPublic'', JBool True)]))]"]
    facade_returns_envelope_unchanged [where this = echoStorage and calls = "[]"
      and expression = "JString ''a''" and options = JUndefined
      and env = "echoFetcher []
           (Post ''/_api/rest/v1/storage/list-buckets''
              (Some (JObject [(''expression'', JString ''a''), (''options'', JNull)])))"
      and calls' = "[Post ''/_api/rest/v1/storage/list-buckets''
         (Some (JObject [(''expression'', JString ''a''), (''options'', JNull)]))]"]
    facade_returns_envelope_unchanged [where this = echoStorage and calls = "[]"
      and env = "echoFetcher [] (Post ''/_api/rest/v1/storage/stats'' None)"
      and calls' = "[Post ''/_api/rest/v1/storage/stats'' None]"]
    facade_returns_envelope_unchanged [where this = echoStorage and calls = "[]"
      and expression = "JString ''a''" and options = JUndefined
      and env = "echoFetcher []
           (Post ''/_api/rest/v1/storage/search-files''
              (Some (JObject [(''expression'', JString ''a''), (''options'', JNull)])))"
      and calls' = "[Post ''/_api/rest/v1/storage/search-files''
         (Some (JObject [(''expression'', JString ''a''), (''options'', JNull)]))]"]
  by (simp add: createBucket_def listBuckets_def listBuckets_expression_def
      listBuckets_options_def getStats_def searchFiles_def searchFiles_options_def
      checkRequired_def returnAwait_def post_def echo_fetcher echoFetcher_def Let_def)

text \<open>
  C6. Every invocation of \<open>createBucket\<close>, \<open>listBuckets\<close>, \<open>getStats\<close> or
  \<open>searchFiles\<close> that raises a local validation error leaves the list of calls as it
  was; every invocation that raises none adds exactly one call to it.
\<close>

theorem facade_one_request_or_none:
  "(let r = createBucket this name isPublic calls in
      ((\<exists>e. fst r = Rejected e) \<longrightarrow> snd r = calls)
      \<and> ((\<forall>e. fst r \<noteq> Rejected e) \<longrightarrow> (\<exists>c. snd r = calls @ [c])))
   \<and> (let r = listBuckets this expression options calls in
      ((\<exists>e. fst r = Rejected e) \<longrightarrow> snd r = calls)
      \<and> ((\<forall>e. fst r \<noteq> Rejected e) \<longrightarrow> (\<exists>c. snd r = calls @ [c])))
   \<and> (let r = getStats this calls in
      ((\<exists>e. fst r = Rejected e) \<longrightarrow> snd r = calls)
      \<and> ((\<forall>e. fst r \<noteq> Rejected e) \<longrightarrow> (\<exists>c. snd r = calls @ [c])))
   \<and> (let r = searchFiles this expression options calls in
      ((\<exists>e. fst r = Rejected e) \<longrightarrow> snd r = calls)
      \<and> ((\<forall>e. fst r \<noteq> Rejected e) \<longrightarrow> (\<exists>c. snd r = calls @ [c])))"
proof (intro conjI)
  show "let r = createBucket this name isPublic calls in
      ((\<exists>e. fst r = Rejected e) \<longrightarrow> snd r = calls)
      \<and> ((\<forall>e. fst r \<noteq> Rejected e) \<longrightarrow> (\<exists>c. snd r = calls @ [c]))"
    using createBucket_outcome [of this name isPublic calls]
    by (auto simp: oneCall_def Let_def)
next
  show "let r = listBuckets this expression options calls in
      ((\<exists>e. fst r = Rejected e) \<longrightarrow> snd r = calls)
      \<and> ((\<forall>e. fst r \<noteq> Rejected e) \<longrightarrow> (\<exists>c. snd r = calls @ [c]))"
    using listBuckets_outcome [of this expression options calls]
    by (auto simp: oneCall_def Let_def)
next
  show "let r = getStats this calls in
      ((\<exists>e. fst r = Rejected e) \<longrightarrow> snd r = calls)
      \<and> ((\<forall>e. fst r \<noteq> Rejected e) \<longrightarrow> (\<exists>c. snd r = calls @ [c]))"
    using getStats_outcome [of this calls]
    by (auto simp: oneCall_def Let_def)
next
  show "let r = searchFiles this expression options calls in
      ((\<exists>e. fst r = Rejected e) \<longrightarrow> snd r = calls)
      \<and> ((\<forall>e. fst r \<noteq> Rejected e) \<longrightarrow> (\<exists>c. snd r = calls @ [c]))"
    using searchFiles_outcome [of this expression options calls]
    by (auto simp: oneCall_def Let_def)
qed

theorem facade_one_request_or_none_witness:
  "snd (createBucket echoStorage (JString []) JUndefined
         [Post ''/_api/rest/v1/storage/stats'' None]) =
     [Post ''/_api/rest/v1/storage/stats'' None]
   \<and> snd (createBucket echoStorage (JString ''logs'') JUndefined
         [Post ''/_api/rest/v1/storage/stats'' None]) =
     [Post ''/_api/rest/v1/storage/stats'' None,
      Post ''/_api/rest/v1/storage/create-bucket''
        (Some (JObject [(''name'', JString ''logs''), (''isPublic'', JBool True)]))]
   \<and> snd (listBuckets echoStorage (JNumber (Fin 42)) JUndefined
         [Post ''/_api/rest/v1/storage/stats'' None]) =
     [Post ''/_api/rest/v1/storage/stats'' None]
   \<and> snd (listBuckets echoStorage JUndefined JUndefined
         [Post ''/_api/rest/v1/storage/stats'' None]) =
     [Post ''/_api/rest/v1/storage/stats'' None,
      Post ''/_api/rest/v1/storage/list-buckets''
        (Some (JObject [(''expression'', JNull), (''options'', JNull)]))]
   \<and> snd (getStats echoStorage [Post ''/_api/rest/v1/storage/stats'' None]) =
     [Post ''/_api/rest/v1/storage/stats'' None, Post ''/_api/rest/v1/storage/stats'' None]
   \<and> snd (searchFiles echoStorage JUndefined JUndefined
         [Post ''/_api/rest/v1/storage/stats'' None]) =
     [Post ''/_api/rest/v1/storage/stats'' None]
   \<and> snd (searchFiles echoStorage (JNumber (Fin 42)) JUndefined
         [Post ''/_api/rest/v1/storage/stats'' None]) =
     [Post ''/_api/rest/v1/storage/stats'' None,
      Post ''/_api/rest/v1/storage/search-files''
        (Some (JObject [(''expression'', JNumber (Fin 42)), (''options'', JNull)]))]"
  using facade_one_request_or_none [where this = echoStorage
      and calls = "[Post ''/_api/rest/v1/storage/stats'' None]"
      and name = "JString []" and isPublic = JUndefined
      and expression = JUndefined and options = JUndefined]
    facade_one_request_or_none [where this = echoStorage
      and calls = "[Post ''/_api/rest/v1/storage/stats'' None]"
      and name = "JString ''logs''" and isPublic = JUndefined
      and expression = "JNumber (Fin 42)" and options = JUndefined]
  by (simp add: createBucket_def listBuckets_def listBuckets_expression_def
      listBuckets_options_def getStats_def searchFiles_def searchFiles_options_def
      checkRequired_def returnAwait_def post_def Let_def)

section \<open>getStats\<close>

text \<open>
  C8. Every call of \<open>getStats\<close> takes no argument and validates nothing: whatever the
  transport and the calls made before, it makes exactly one call of \<open>post\<close>, with the
  fixed path \<open>/_api/rest/v1/storage/stats\<close> and no body, and its promise resolves.
\<close>

theorem getStats_one_post_no_body:
  "getStats this calls =
     (Resolved (fetcher this calls (Post ''/_api/rest/v1/storage/stats'' None)),
      calls @ [Post ''/_api/rest/v1/storage/stats'' None])"
  by (simp add: getStats_def returnAwait_def post_def)

end
